theory Spec2Isabelle
  imports Main
begin

section \<open>Values, errors and rendering of numbers\<close>

text \<open>
  JavaScript values as the PostgreSQL driver hands them over in result rows and as the
  route handlers pass them to \<open>res.json\<close>. Numbers are the integers of the safe
  range; \<open>JNaN\<close> is the one non-number \<open>parseInt\<close> can produce.
\<close>

datatype jsval =
    JUndefined
  | JNull
  | JBool bool
  | JNum int
  | JNaN
  | JStr string
  | JArr "jsval list"
  | JObj "(string \<times> jsval) list"

text \<open>A thrown JavaScript \<open>Error\<close> (or \<open>TypeError\<close>) with its message.\<close>

datatype error = Error string | TypeError string

fun message :: "error \<Rightarrow> string" where
  "message (Error m) = m"
| "message (TypeError m) = m"

definition digit_char :: "nat \<Rightarrow> char" where
  "digit_char d = ''0123456789'' ! d"

fun show_nat :: "nat \<Rightarrow> string" where
  "show_nat n = (if n < 10 then [digit_char n] else show_nat (n div 10) @ [digit_char (n mod 10)])"

declare show_nat.simps [simp del]

text \<open>What a template literal \<open>`${n}`\<close> yields for an integer \<open>n\<close>.\<close>

definition show_int :: "int \<Rightarrow> string" where
  "show_int i = (if i < 0 then CHR ''-'' # show_nat (nat (- i)) else show_nat (nat i))"

section \<open>Connection profiles (shared schema)\<close>

text \<open>
  A row of the table \<open>db_connections\<close> (\<open>DbConnection\<close>). The field \<open>id\<close> of the
  source is \<open>conn_id\<close> here.
\<close>

record DbConnection =
  conn_id :: int
  name :: string
  host :: string
  port :: int
  database :: string
  username :: string
  password :: string
  ssl :: "bool option"
  isActive :: "bool option"
  lastConnected :: "string option"

text \<open>
  \<open>InsertDbConnection\<close>: the insert schema without \<open>id\<close>, \<open>lastConnected\<close> and
  \<open>isActive\<close>. \<open>port\<close> and \<open>ssl\<close> have defaults and may be absent (\<open>None\<close>);
  \<open>ssl\<close> is nullable as well (\<open>Some None\<close> is \<open>null\<close>).
\<close>

record InsertDbConnection =
  ins_name :: string
  ins_host :: string
  ins_port :: "int option"
  ins_database :: string
  ins_username :: string
  ins_password :: string
  ins_ssl :: "bool option option"

text \<open>\<open>Partial<InsertDbConnection>\<close>: every field may be absent.\<close>

record PartialDbConnection =
  upd_name :: "string option"
  upd_host :: "string option"
  upd_port :: "int option"
  upd_database :: "string option"
  upd_username :: "string option"
  upd_password :: "string option"
  upd_ssl :: "bool option option"

section \<open>Pools and the outside world\<close>

text \<open>The \<open>ssl\<close> option of a pool: \<open>false\<close>, or \<open>{ rejectUnauthorized: b }\<close>.\<close>

datatype ssl_config = SslOff | SslOn bool

record PoolConfig =
  cfg_host :: string
  cfg_port :: "int option"
  cfg_database :: string
  cfg_user :: string
  cfg_password :: string
  cfg_ssl :: ssl_config
  connectionTimeoutMillis :: "int option"

text \<open>
  A \<open>Pool\<close> object: the options it was constructed with, and what has been done with
  it since: sessions handed out by \<open>connect()\<close>, sessions given back by
  \<open>release()\<close>, and the number of times \<open>end()\<close> was called on it.
\<close>

record Pool =
  options :: PoolConfig
  acquired :: nat
  released :: nat
  end_calls :: nat

definition new_Pool :: "PoolConfig \<Rightarrow> Pool" where
  "new_Pool cfg = \<lparr>options = cfg, acquired = 0, released = 0, end_calls = 0\<rparr>"

record FieldDef =
  field_name :: string
  tableID :: int
  columnID :: int
  dataTypeID :: int

type_synonym row = "(string \<times> jsval) list"

record QueryResult =
  rows :: "row list"
  rowCount :: "int option"
  fieldDefs :: "FieldDef list"

text \<open>The calls the storage layer makes on the metadata store through the ORM.\<close>

datatype meta_op =
    SelectAll
  | SelectById int
  | InsertRow InsertDbConnection
  | UpdateRow int PartialDbConnection
  | DeleteRow int

text \<open>
  The collaborators outside the repository, taken as parameters: whether a pool can hand
  out a session (\<open>None\<close>) or rejects with a message, whether \<open>end()\<close> rejects, what
  the target answers to a statement with its bound parameters (a driver error message or
  a result, and the target's next state), whether a metadata store call rejects, and the
  order the metadata store sorts names in.
\<close>

record 't driver =
  connect_err :: "'t \<Rightarrow> Pool \<Rightarrow> string option"
  end_err :: "'t \<Rightarrow> Pool \<Rightarrow> string option"
  run_query :: "'t \<Rightarrow> Pool \<Rightarrow> string \<Rightarrow> jsval list \<Rightarrow> (string + QueryResult) \<times> 't"
  meta_fault :: "meta_op \<Rightarrow> string option"
  name_le :: "string \<Rightarrow> string \<Rightarrow> bool"

text \<open>
  The state of the process and of what it talks to: the rows of \<open>db_connections\<close> with
  the next value of the serial \<open>id\<close>, the registry \<open>connectionPools\<close> (a
  \<open>Map\<close> from profile identifier to a pool object), every pool object constructed
  so far (a pool is referred to by its position in \<open>pools\<close>), the targets, and
  the statements sent so far, each with the pool it went to and its bound parameters.
\<close>

record 't world =
  db_rows :: "DbConnection list"
  next_id :: int
  connectionPools :: "int \<rightharpoonup> nat"
  pools :: "Pool list"
  target :: 't
  sent :: "(nat \<times> string \<times> jsval list) list"

section \<open>Storage: profiles and the registry\<close>


definition getConnection :: "'t driver \<Rightarrow> 't world \<Rightarrow> int \<Rightarrow> error + DbConnection option" where
  "getConnection drv w i =
     (case meta_fault drv (SelectById i) of
        Some m \<Rightarrow> Inl (Error m)
      | None \<Rightarrow> Inr (find (\<lambda>c. conn_id c = i) (db_rows w)))"

definition pool_options :: "DbConnection \<Rightarrow> PoolConfig" where
  "pool_options connection =
     \<lparr>cfg_host = host connection,
      cfg_port = Some (port connection),
      cfg_database = database connection,
      cfg_user = username connection,
      cfg_password = password connection,
      cfg_ssl = (if ssl connection = Some True then SslOn False else SslOff),
      connectionTimeoutMillis = None\<rparr>"

definition getConnectionPool :: "'t driver \<Rightarrow> 't world \<Rightarrow> int \<Rightarrow> (error + nat) \<times> 't world" where
  "getConnectionPool drv w connectionId =
     (case connectionPools w connectionId of
        Some p \<Rightarrow> (Inr p, w)
      | None \<Rightarrow>
          (case getConnection drv w connectionId of
             Inl e \<Rightarrow> (Inl e, w)
           | Inr None \<Rightarrow>
               (Inl (Error (''Connection with ID '' @ show_int connectionId @ '' not found'')), w)
           | Inr (Some connection) \<Rightarrow>
               (let pool = new_Pool (pool_options connection);
                    p = length (pools w)
                in (Inr p, w\<lparr>pools := pools w @ [pool],
                              connectionPools := (connectionPools w)(connectionId \<mapsto> p)\<rparr>))))"


definition createConnection ::
  "'t driver \<Rightarrow> 't world \<Rightarrow> InsertDbConnection \<Rightarrow> (error + DbConnection) \<times> 't world" where
  "createConnection drv w connection =
     (case meta_fault drv (InsertRow connection) of
        Some m \<Rightarrow> (Inl (Error m), w)
      | None \<Rightarrow>
          (let newConnection =
                 \<lparr>conn_id = next_id w,
                  name = ins_name connection,
                  host = ins_host connection,
                  port = (case ins_port connection of None \<Rightarrow> 5432 | Some v \<Rightarrow> v),
                  database = ins_database connection,
                  username = ins_username connection,
                  password = ins_password connection,
                  ssl = (case ins_ssl connection of None \<Rightarrow> Some False | Some v \<Rightarrow> v),
                  isActive = Some False,
                  lastConnected = None\<rparr>
           in (Inr newConnection,
               w\<lparr>db_rows := db_rows w @ [newConnection], next_id := next_id w + 1\<rparr>)))"

text \<open>\<open>.set(connection)\<close>: the fields present in the update replace the row's.\<close>

definition set_fields :: "PartialDbConnection \<Rightarrow> DbConnection \<Rightarrow> DbConnection" where
  "set_fields u c =
     c\<lparr>name := (case upd_name u of None \<Rightarrow> name c | Some v \<Rightarrow> v),
       host := (case upd_host u of None \<Rightarrow> host c | Some v \<Rightarrow> v),
       port := (case upd_port u of None \<Rightarrow> port c | Some v \<Rightarrow> v),
       database := (case upd_database u of None \<Rightarrow> database c | Some v \<Rightarrow> v),
       username := (case upd_username u of None \<Rightarrow> username c | Some v \<Rightarrow> v),
       password := (case upd_password u of None \<Rightarrow> password c | Some v \<Rightarrow> v),
       ssl := (case upd_ssl u of None \<Rightarrow> ssl c | Some v \<Rightarrow> v)\<rparr>"

definition updateConnection ::
  "'t driver \<Rightarrow> 't world \<Rightarrow> int \<Rightarrow> PartialDbConnection
     \<Rightarrow> (error + DbConnection option) \<times> 't world" where
  "updateConnection drv w i connection =
     (case meta_fault drv (UpdateRow i connection) of
        Some m \<Rightarrow> (Inl (Error m), w)
      | None \<Rightarrow>
          (let rows' = map (\<lambda>c. if conn_id c = i then set_fields connection c else c) (db_rows w);
               updatedConnection = find (\<lambda>c. conn_id c = i) rows';
               w1 = w\<lparr>db_rows := rows'\<rparr>;
               w2 = (if connectionPools w1 i \<noteq> None
                     then w1\<lparr>connectionPools := (connectionPools w1)(i := None)\<rparr>
                     else w1)
           in (Inr updatedConnection, w2)))"

text \<open>
  The calls on a pool object. A reference is the position of a pool that was constructed,
  so it is always in range; out of range the world is left as it is.
\<close>

definition pool_end :: "'t driver \<Rightarrow> 't world \<Rightarrow> nat \<Rightarrow> (error + unit) \<times> 't world" where
  "pool_end drv w p =
     (if p < length (pools w)
      then (let pl = pools w ! p;
                w' = w\<lparr>pools := (pools w)[p := pl\<lparr>end_calls := end_calls pl + 1\<rparr>]\<rparr>
            in (case end_err drv (target w) pl of
                  Some m \<Rightarrow> (Inl (Error m), w')
                | None \<Rightarrow> (Inr (), w')))
      else (Inr (), w))"

definition pool_connect :: "'t driver \<Rightarrow> 't world \<Rightarrow> nat \<Rightarrow> (error + unit) \<times> 't world" where
  "pool_connect drv w p =
     (if p < length (pools w)
      then (let pl = pools w ! p
            in (case connect_err drv (target w) pl of
                  Some m \<Rightarrow> (Inl (Error m), w)
                | None \<Rightarrow> (Inr (), w\<lparr>pools := (pools w)[p := pl\<lparr>acquired := acquired pl + 1\<rparr>]\<rparr>)))
      else (Inr (), w))"

definition client_release :: "'t world \<Rightarrow> nat \<Rightarrow> 't world" where
  "client_release w p =
     (if p < length (pools w)
      then w\<lparr>pools := (pools w)[p := (pools w ! p)\<lparr>released := released (pools w ! p) + 1\<rparr>]\<rparr>
      else w)"


definition deleteConnection :: "'t driver \<Rightarrow> 't world \<Rightarrow> int \<Rightarrow> (error + bool) \<times> 't world" where
  "deleteConnection drv w i =
     (case meta_fault drv (DeleteRow i) of
        Some m \<Rightarrow> (Inl (Error m), w)
      | None \<Rightarrow>
          (let result = filter (\<lambda>c. conn_id c = i) (db_rows w);
               w1 = w\<lparr>db_rows := filter (\<lambda>c. conn_id c \<noteq> i) (db_rows w)\<rparr>
           in (case connectionPools w1 i of
                 None \<Rightarrow> (Inr (length result > 0), w1)
               | Some pool \<Rightarrow>
                   (case pool_end drv w1 pool of
                      (Inl e, w2) \<Rightarrow> (Inl e, w2)
                    | (Inr u, w2) \<Rightarrow>
                        (Inr (length result > 0),
                         w2\<lparr>connectionPools := (connectionPools w2)(i := None)\<rparr>)))))"

definition test_options :: "InsertDbConnection \<Rightarrow> PoolConfig" where
  "test_options connection =
     \<lparr>cfg_host = ins_host connection,
      cfg_port = ins_port connection,
      cfg_database = ins_database connection,
      cfg_user = ins_username connection,
      cfg_password = ins_password connection,
      cfg_ssl = (if ins_ssl connection = Some (Some True) then SslOn False else SslOff),
      connectionTimeoutMillis = Some 5000\<rparr>"

text \<open>
  \<open>testConnection\<close> never throws: the \<open>catch\<close> block turns every failure into
  \<open>false\<close>, and a failure of \<open>end()\<close> inside it is caught again and logged.
\<close>

definition testConnection :: "'t driver \<Rightarrow> 't world \<Rightarrow> InsertDbConnection \<Rightarrow> bool \<times> 't world" where
  "testConnection drv w connection =
     (let testPool = length (pools w);
          w0 = w\<lparr>pools := pools w @ [new_Pool (test_options connection)]\<rparr>;
          catch = (\<lambda>wc. (False, snd (pool_end drv wc testPool)))
      in (case pool_connect drv w0 testPool of
            (Inl e, w1) \<Rightarrow> catch w1
          | (Inr client, w1) \<Rightarrow>
              (case pool_end drv (client_release w1 testPool) testPool of
                 (Inl e, w3) \<Rightarrow> catch w3
               | (Inr u, w3) \<Rightarrow> (True, w3))))"


section \<open>Storage: database operations\<close>























section \<open>Routes for connection profiles\<close>

text \<open>
  What \<open>res.json\<close> puts on the wire: a property whose value is \<open>undefined\<close> is left
  out of an object, \<open>undefined\<close> in an array and \<open>NaN\<close> become \<open>null\<close>.
\<close>

fun to_json :: "jsval \<Rightarrow> jsval" where
  "to_json (JArr xs) = JArr (map (\<lambda>x. if x = JUndefined then JNull else to_json x) xs)"
| "to_json (JObj kvs) =
     JObj (map (\<lambda>kv. (fst kv, to_json (snd kv))) (filter (\<lambda>kv. snd kv \<noteq> JUndefined) kvs))"
| "to_json JNaN = JNull"
| "to_json v = v"

record response =
  status :: nat
  body :: "jsval option"

definition json_response :: "nat \<Rightarrow> jsval \<Rightarrow> response" where
  "json_response st v = \<lparr>status = st, body = Some (to_json v)\<rparr>"

definition nullable_bool :: "bool option \<Rightarrow> jsval" where
  "nullable_bool b = (case b of None \<Rightarrow> JNull | Some v \<Rightarrow> JBool v)"

text \<open>A profile row as the object the ORM returns, in the order of the columns.\<close>

definition conn_obj :: "DbConnection \<Rightarrow> (string \<times> jsval) list" where
  "conn_obj c =
     [(''id'', JNum (conn_id c)),
      (''name'', JStr (name c)),
      (''host'', JStr (host c)),
      (''port'', JNum (port c)),
      (''database'', JStr (database c)),
      (''username'', JStr (username c)),
      (''password'', JStr (password c)),
      (''ssl'', nullable_bool (ssl c)),
      (''isActive'', nullable_bool (isActive c)),
      (''lastConnected'', (case lastConnected c of None \<Rightarrow> JNull | Some d \<Rightarrow> JStr d))]"


text \<open>\<open>const { k, ...rest } = obj\<close>: the object without the property.\<close>

definition obj_omit :: "string \<Rightarrow> (string \<times> jsval) list \<Rightarrow> (string \<times> jsval) list" where
  "obj_omit k kvs = filter (\<lambda>kv. fst kv \<noteq> k) kvs"

text \<open>
  What a handler can catch: the validation error of the request body, with the details
  the validation library reports, or an error thrown by the storage layer.
\<close>

datatype thrown = ZodError jsval | Failure error

fun handleError :: "thrown \<Rightarrow> response" where
  "handleError (ZodError details) =
     json_response 400 (JObj [(''message'', JStr ''Validation error''), (''errors'', details)])"
| "handleError (Failure err) =
     json_response 500
       (JObj [(''message'', JStr (if message err = [] then ''Internal Server Error'' else message err))])"



text \<open>
  \<open>POST /api/connections\<close>. The request body arrives as the outcome of
  \<open>insertDbConnectionSchema.parse\<close>. The value \<open>testConnection\<close> returns is not
  looked at; the inner \<open>catch\<close> sees what \<open>createConnection\<close> throws.
\<close>

definition route_post_connections ::
  "'t driver \<Rightarrow> 't world \<Rightarrow> jsval + InsertDbConnection \<Rightarrow> response \<times> 't world" where
  "route_post_connections drv w parsed =
     (case parsed of
        Inl details \<Rightarrow> (handleError (ZodError details), w)
      | Inr connection \<Rightarrow>
          (case testConnection drv w connection of
             (tested, w1) \<Rightarrow>
               (case createConnection drv w1 connection of
                  (Inr newConnection, w2) \<Rightarrow>
                    (json_response 201 (JObj (obj_omit ''password'' (conn_obj newConnection))), w2)
                | (Inl connectionErr, w2) \<Rightarrow>
                    (json_response 400
                       (JObj [(''message'',
                               JStr (if message connectionErr = []
                                     then ''Failed to connect to database''
                                     else message connectionErr)),
                              (''error'', JUndefined)]), w2))))"






section \<open>Calls of the registry that overlap\<close>

text \<open>
  \<open>getConnectionPool\<close> is an \<open>async\<close> function with one \<open>await\<close>, on
  \<open>getConnection\<close>. A call runs from its start to that \<open>await\<close> without
  interruption, and from the answer of the metadata store to its return without
  interruption; other calls may run in between. A call is therefore in one of three
  states: not started, suspended at the \<open>await\<close>, or returned (or thrown).
\<close>

datatype task = Fresh int | Suspended int | Finished "error + nat"

fun resolve_step :: "'t driver \<Rightarrow> 't world \<Rightarrow> task \<Rightarrow> task \<times> 't world" where
  "resolve_step drv w (Fresh connectionId) =
     (case connectionPools w connectionId of
        Some p \<Rightarrow> (Finished (Inr p), w)
      | None \<Rightarrow> (Suspended connectionId, w))"
| "resolve_step drv w (Suspended connectionId) =
     (case getConnection drv w connectionId of
        Inl e \<Rightarrow> (Finished (Inl e), w)
      | Inr None \<Rightarrow>
          (Finished (Inl (Error (''Connection with ID '' @ show_int connectionId @ '' not found''))), w)
      | Inr (Some connection) \<Rightarrow>
          (let pool = new_Pool (pool_options connection);
               p = length (pools w)
           in (Finished (Inr p),
               w\<lparr>pools := pools w @ [pool],
                 connectionPools := (connectionPools w)(connectionId \<mapsto> p)\<rparr>)))"
| "resolve_step drv w (Finished r) = (Finished r, w)"


section \<open>Example profiles, worlds and drivers\<close>

definition demo_profile :: DbConnection where
  "demo_profile =
     \<lparr>conn_id = 1, name = ''main'', host = ''db.example'', port = 5432, database = ''shop'',
      username = ''admin'', password = ''s3cret'', ssl = Some True, isActive = Some False,
      lastConnected = None\<rparr>"

text \<open>One stored profile, nothing cached, no pool constructed yet.\<close>

definition demo_world :: "unit world" where
  "demo_world =
     \<lparr>db_rows = [demo_profile], next_id = 2, connectionPools = Map.empty, pools = [],
      target = (), sent = []\<rparr>"

text \<open>The same, after the profile's pool has been constructed and cached.\<close>

definition cached_world :: "unit world" where
  "cached_world =
     demo_world\<lparr>connectionPools := [1 \<mapsto> 0], pools := [new_Pool (pool_options demo_profile)]\<rparr>"

text \<open>A target that refuses every connection; the metadata store works.\<close>

definition down_driver :: "unit driver" where
  "down_driver =
     \<lparr>connect_err = (\<lambda>t p. Some ''connect ECONNREFUSED''),
      end_err = (\<lambda>t p. None),
      run_query = (\<lambda>t p text params. (Inl ''connect ECONNREFUSED'', ())),
      meta_fault = (\<lambda>op. None),
      name_le = (\<lambda>a b. length a \<le> length b)\<rparr>"

text \<open>A target that accepts connections and rejects every statement.\<close>

definition up_driver :: "unit driver" where
  "up_driver =
     \<lparr>connect_err = (\<lambda>t p. None),
      end_err = (\<lambda>t p. None),
      run_query = (\<lambda>t p text params. (Inl ''syntax error'', ())),
      meta_fault = (\<lambda>op. None),
      name_le = (\<lambda>a b. length a \<le> length b)\<rparr>"

text \<open>A valid request body for a new profile, and one for an update of the host.\<close>

definition demo_candidate :: InsertDbConnection where
  "demo_candidate =
     \<lparr>ins_name = ''reports'', ins_host = ''10.0.0.9'', ins_port = Some 5433,
      ins_database = ''dw'', ins_username = ''ro'', ins_password = ''pw'', ins_ssl = None\<rparr>"

definition demo_update :: PartialDbConnection where
  "demo_update =
     \<lparr>upd_name = None, upd_host = Some ''db2.example'', upd_port = None, upd_database = None,
      upd_username = None, upd_password = None, upd_ssl = None\<rparr>"

text \<open>The world after a probe of the candidate, on the reachable and on the unreachable target.\<close>

definition probed_up :: "unit world" where
  "probed_up =
     cached_world\<lparr>pools := pools cached_world @
        [\<lparr>options = test_options demo_candidate, acquired = 1, released = 1, end_calls = 1\<rparr>]\<rparr>"

definition probed_down :: "unit world" where
  "probed_down =
     cached_world\<lparr>pools := pools cached_world @
        [\<lparr>options = test_options demo_candidate, acquired = 0, released = 0, end_calls = 1\<rparr>]\<rparr>"










section \<open>What a response may show of a profile\<close>




section \<open>Properties of the registry\<close>

text \<open>
  C3. \<open>resolve(profileId)\<close> is \<open>getConnectionPool\<close>. On a cache hit it returns the
  cached pool and leaves everything unchanged. On a miss, when the metadata store answers
  and holds no profile with that identifier, it fails with the error
  \<open>Connection with ID <id> not found\<close> and the registry is unchanged. On a miss, when
  the store holds the profile, it constructs one new pool whose options are the profile's
  host, port, database, username, password and ssl flag (and nothing else), caches it
  under the identifier and returns it.
\<close>

theorem getConnectionPool_contract:
  "(connectionPools w i = Some p \<longrightarrow> getConnectionPool drv w i = (Inr p, w)) \<and>
   (connectionPools w i = None \<and> meta_fault drv (SelectById i) = None \<and>
      i \<notin> conn_id ` set (db_rows w) \<longrightarrow>
      getConnectionPool drv w i =
        (Inl (Error (''Connection with ID '' @ show_int i @ '' not found'')), w)) \<and>
   (connectionPools w i = None \<and> meta_fault drv (SelectById i) = None \<and>
      find (\<lambda>c. conn_id c = i) (db_rows w) = Some c \<longrightarrow>
      getConnectionPool drv w i =
        (Inr (length (pools w)),
         w\<lparr>pools := pools w @
              [\<lparr>options = \<lparr>cfg_host = host c, cfg_port = Some (port c),
                            cfg_database = database c, cfg_user = username c,
                            cfg_password = password c,
                            cfg_ssl = (if ssl c = Some True then SslOn False else SslOff),
                            connectionTimeoutMillis = None\<rparr>,
                acquired = 0, released = 0, end_calls = 0\<rparr>],
           connectionPools := (connectionPools w)(i \<mapsto> length (pools w))\<rparr>))"
proof -
  have miss: "find (\<lambda>c. conn_id c = i) (db_rows w) = None" if "i \<notin> conn_id ` set (db_rows w)"
    using that by (auto simp: find_None_iff)
  show ?thesis
    by (auto simp: getConnectionPool_def getConnection_def pool_options_def new_Pool_def
        Let_def miss)
qed

lemma show_int_7: "show_int 7 = ''7''"
  by (simp add: show_int_def show_nat.simps digit_char_def)

theorem getConnectionPool_contract_witness:
  "connectionPools cached_world 1 = Some 0 \<and>
   getConnectionPool down_driver cached_world 1 = (Inr 0, cached_world) \<and>
   connectionPools demo_world 7 = None \<and> meta_fault down_driver (SelectById 7) = None \<and>
   7 \<notin> conn_id ` set (db_rows demo_world) \<and>
   getConnectionPool down_driver demo_world 7 =
     (Inl (Error ''Connection with ID 7 not found''), demo_world) \<and>
   connectionPools demo_world 1 = None \<and> meta_fault down_driver (SelectById 1) = None \<and>
   find (\<lambda>c. conn_id c = 1) (db_rows demo_world) = Some demo_profile \<and>
   getConnectionPool down_driver demo_world 1 =
     (Inr 0,
      demo_world\<lparr>pools :=
          [\<lparr>options = \<lparr>cfg_host = ''db.example'', cfg_port = Some 5432, cfg_database = ''shop'',
                        cfg_user = ''admin'', cfg_password = ''s3cret'', cfg_ssl = SslOn False,
                        connectionTimeoutMillis = None\<rparr>,
            acquired = 0, released = 0, end_calls = 0\<rparr>],
        connectionPools := [1 \<mapsto> 0]\<rparr>)"
  using getConnectionPool_contract [where w = cached_world and i = 1 and p = 0 and drv = down_driver]
    getConnectionPool_contract [where w = demo_world and i = 7 and drv = down_driver]
    getConnectionPool_contract [where w = demo_world and i = 1 and drv = down_driver and c = demo_profile]
  by (simp add: cached_world_def demo_world_def down_driver_def demo_profile_def show_int_7)

text \<open>
  The two uninterrupted pieces of a call, run one after the other, are
  \<open>getConnectionPool\<close>.
\<close>

lemma getConnectionPool_as_steps:
  "getConnectionPool drv w i =
     (case resolve_step drv w (Fresh i) of
        (Finished r, w') \<Rightarrow> (r, w')
      | (t, w') \<Rightarrow>
          (case resolve_step drv w' t of
             (Finished r, w'') \<Rightarrow> (r, w'')
           | (t', w'') \<Rightarrow> (Inl (Error []), w'')))"
  by (simp add: getConnectionPool_def Let_def split: option.splits sum.splits)








section \<open>Properties of updates, deletions and probes\<close>

lemma pool_end_last:
  "pool_end drv (w\<lparr>pools := ps @ [pl]\<rparr>) (length ps) =
     ((case end_err drv (target w) pl of Some m \<Rightarrow> Inl (Error m) | None \<Rightarrow> Inr ()),
      w\<lparr>pools := ps @ [pl\<lparr>end_calls := end_calls pl + 1\<rparr>]\<rparr>)"
  by (simp add: pool_end_def Let_def split: option.splits)

lemma pool_connect_last:
  "pool_connect drv (w\<lparr>pools := ps @ [pl]\<rparr>) (length ps) =
     (case connect_err drv (target w) pl of
        Some m \<Rightarrow> (Inl (Error m), w\<lparr>pools := ps @ [pl]\<rparr>)
      | None \<Rightarrow> (Inr (), w\<lparr>pools := ps @ [pl\<lparr>acquired := acquired pl + 1\<rparr>]\<rparr>))"
  by (simp add: pool_connect_def Let_def split: option.splits)

lemma client_release_last:
  "client_release (w\<lparr>pools := ps @ [pl]\<rparr>) (length ps) =
     w\<lparr>pools := ps @ [pl\<lparr>released := released pl + 1\<rparr>]\<rparr>"
  by (simp add: client_release_def)

lemma testConnection_db_rows: "db_rows (snd (testConnection drv w c)) = db_rows w"
  by (simp add: testConnection_def Let_def pool_end_def pool_connect_def client_release_def
      split: option.splits prod.splits sum.splits)

lemma testConnection_next_id: "next_id (snd (testConnection drv w c)) = next_id w"
  by (simp add: testConnection_def Let_def pool_end_def pool_connect_def client_release_def
      split: option.splits prod.splits sum.splits)

lemma update_keeps_pools: "pools (snd (updateConnection drv w i u)) = pools w"
  by (simp add: updateConnection_def Let_def split: option.splits)

text \<open>
  C4. The update path never calls \<open>end()\<close>: for every driver, world and update, the
  pool objects after \<open>updateConnection\<close> are the pool objects before it. Evaluated on
  the world in which profile 1 has its pool 0 cached: the update removes the registry
  entry, and after the update, and after the next resolution has constructed pool 1,
  pool 0 has still not been ended. The delete path, on the same world, calls \<open>end()\<close>
  once and removes the entry.
\<close>

theorem update_leaves_pool_open:
  "pools (snd (updateConnection drv w i u)) = pools w \<and>
   connectionPools cached_world 1 = Some 0 \<and>
   end_calls (pools cached_world ! 0) = 0 \<and>
   connectionPools (snd (updateConnection down_driver cached_world 1 demo_update)) 1 = None \<and>
   end_calls (pools (snd (updateConnection down_driver cached_world 1 demo_update)) ! 0) = 0 \<and>
   fst (getConnectionPool down_driver
          (snd (updateConnection down_driver cached_world 1 demo_update)) 1) = Inr 1 \<and>
   map end_calls (pools (snd (getConnectionPool down_driver
          (snd (updateConnection down_driver cached_world 1 demo_update)) 1))) = [0, 0] \<and>
   connectionPools (snd (deleteConnection down_driver cached_world 1)) 1 = None \<and>
   end_calls (pools (snd (deleteConnection down_driver cached_world 1)) ! 0) = 1"
  using update_keeps_pools [of drv w i u]
  by (simp add: updateConnection_def deleteConnection_def getConnectionPool_def getConnection_def
      pool_end_def Let_def cached_world_def demo_world_def down_driver_def demo_update_def
      demo_profile_def set_fields_def new_Pool_def pool_options_def split: option.splits)

text \<open>
  C5. \<open>probe(candidateProfile)\<close> is \<open>testConnection\<close>. Whatever the target does, the
  probe constructs one pool of its own, with the candidate's connection fields and a
  connection timeout of 5000 milliseconds; it leaves the registry, the stored profiles and
  every other pool as they were; \<open>end()\<close> has been called on its pool when it returns,
  on every path; and when it returns \<open>true\<close>, the pool handed out one session, which
  was released.
\<close>

theorem testConnection_isolated:
  "testConnection drv w c = (ok, w') \<Longrightarrow>
     connectionPools w' = connectionPools w \<and>
     db_rows w' = db_rows w \<and>
     length (pools w') = length (pools w) + 1 \<and>
     take (length (pools w)) (pools w') = pools w \<and>
     options (pools w' ! length (pools w)) =
       \<lparr>cfg_host = ins_host c, cfg_port = ins_port c, cfg_database = ins_database c,
        cfg_user = ins_username c, cfg_password = ins_password c,
        cfg_ssl = (if ins_ssl c = Some (Some True) then SslOn False else SslOff),
        connectionTimeoutMillis = Some 5000\<rparr> \<and>
     1 \<le> end_calls (pools w' ! length (pools w)) \<and>
     (ok \<longrightarrow> connect_err drv (target w) (new_Pool (test_options c)) = None \<and>
            acquired (pools w' ! length (pools w)) = 1 \<and>
            released (pools w' ! length (pools w)) = 1)"
  by (auto simp: testConnection_def Let_def pool_end_last pool_connect_last client_release_last
      test_options_def new_Pool_def split: option.splits prod.splits sum.splits)

lemma testConnection_up:
  "testConnection up_driver cached_world demo_candidate = (True, probed_up)"
  by (simp add: testConnection_def Let_def pool_end_last pool_connect_last client_release_last
      new_Pool_def up_driver_def probed_up_def)

lemma testConnection_down:
  "testConnection down_driver cached_world demo_candidate = (False, probed_down)"
  by (simp add: testConnection_def Let_def pool_end_last pool_connect_last client_release_last
      new_Pool_def down_driver_def probed_down_def)

theorem testConnection_isolated_witness:
  "testConnection up_driver cached_world demo_candidate = (True, probed_up) \<and>
   connectionPools probed_up = connectionPools cached_world \<and>
   take (length (pools cached_world)) (pools probed_up) = pools cached_world \<and>
   1 \<le> end_calls (pools probed_up ! length (pools cached_world)) \<and>
   acquired (pools probed_up ! length (pools cached_world)) = 1 \<and>
   released (pools probed_up ! length (pools cached_world)) = 1 \<and>
   testConnection down_driver cached_world demo_candidate = (False, probed_down) \<and>
   connectionPools probed_down = connectionPools cached_world \<and>
   take (length (pools cached_world)) (pools probed_down) = pools cached_world \<and>
   1 \<le> end_calls (pools probed_down ! length (pools cached_world))"
  using testConnection_isolated [OF testConnection_up] testConnection_isolated [OF testConnection_down]
    testConnection_up testConnection_down
  by simp

section \<open>Properties of the routes\<close>

lemma post_ignores_probe:
  "fst (route_post_connections (drv\<lparr>connect_err := ce\<rparr>) w parsed) =
     fst (route_post_connections drv w parsed) \<and>
   db_rows (snd (route_post_connections (drv\<lparr>connect_err := ce\<rparr>) w parsed)) =
     db_rows (snd (route_post_connections drv w parsed))"
proof (cases parsed)
  case (Inl details)
  then show ?thesis by (simp add: route_post_connections_def)
next
  case (Inr c)
  obtain ok1 w1 where t1: "testConnection (drv\<lparr>connect_err := ce\<rparr>) w c = (ok1, w1)"
    by (cases "testConnection (drv\<lparr>connect_err := ce\<rparr>) w c")
  obtain ok2 w2 where t2: "testConnection drv w c = (ok2, w2)"
    by (cases "testConnection drv w c")
  have "db_rows w1 = db_rows w" "next_id w1 = next_id w"
    using testConnection_db_rows [of "drv\<lparr>connect_err := ce\<rparr>" w c]
      testConnection_next_id [of "drv\<lparr>connect_err := ce\<rparr>" w c] t1 by simp_all
  moreover have "db_rows w2 = db_rows w" "next_id w2 = next_id w"
    using testConnection_db_rows [of drv w c] testConnection_next_id [of drv w c] t2 by simp_all
  ultimately show ?thesis
    using Inr t1 t2
    by (simp add: route_post_connections_def createConnection_def Let_def split: option.splits)
qed

text \<open>
  C1. The create handler does not look at the value the probe returns: for every driver,
  world and request, its response and the profiles stored afterwards are the same
  whatever the target says to a connection attempt. Evaluated on a target that refuses
  every connection: the probe returns \<open>false\<close>, the handler stores the profile and
  answers 201 with the new profile.
\<close>

theorem post_unreachable_is_persisted:
  "fst (route_post_connections (drv\<lparr>connect_err := ce\<rparr>) w parsed) =
     fst (route_post_connections drv w parsed) \<and>
   db_rows (snd (route_post_connections (drv\<lparr>connect_err := ce\<rparr>) w parsed)) =
     db_rows (snd (route_post_connections drv w parsed)) \<and>
   fst (testConnection down_driver demo_world demo_candidate) = False \<and>
   route_post_connections down_driver demo_world (Inr demo_candidate) =
     (\<lparr>status = 201,
       body = Some (JObj [(''id'', JNum 2), (''name'', JStr ''reports''), (''host'', JStr ''10.0.0.9''),
                          (''port'', JNum 5433), (''database'', JStr ''dw''), (''username'', JStr ''ro''),
                          (''ssl'', JBool False), (''isActive'', JBool False),
                          (''lastConnected'', JNull)])\<rparr>,
      demo_world\<lparr>db_rows := [demo_profile,
                     \<lparr>conn_id = 2, name = ''reports'', host = ''10.0.0.9'', port = 5433,
                      database = ''dw'', username = ''ro'', password = ''pw'', ssl = Some False,
                      isActive = Some False, lastConnected = None\<rparr>],
                 next_id := 3,
                 pools := [\<lparr>options = test_options demo_candidate, acquired = 0, released = 0,
                            end_calls = 1\<rparr>]\<rparr>)"
proof -
  have "fst (testConnection down_driver demo_world demo_candidate) = False \<and>
   route_post_connections down_driver demo_world (Inr demo_candidate) =
     (\<lparr>status = 201,
       body = Some (JObj [(''id'', JNum 2), (''name'', JStr ''reports''), (''host'', JStr ''10.0.0.9''),
                          (''port'', JNum 5433), (''database'', JStr ''dw''), (''username'', JStr ''ro''),
                          (''ssl'', JBool False), (''isActive'', JBool False),
                          (''lastConnected'', JNull)])\<rparr>,
      demo_world\<lparr>db_rows := [demo_profile,
                     \<lparr>conn_id = 2, name = ''reports'', host = ''10.0.0.9'', port = 5433,
                      database = ''dw'', username = ''ro'', password = ''pw'', ssl = Some False,
                      isActive = Some False, lastConnected = None\<rparr>],
                 next_id := 3,
                 pools := [\<lparr>options = test_options demo_candidate, acquired = 0, released = 0,
                            end_calls = 1\<rparr>]\<rparr>)"
    by (simp add: route_post_connections_def testConnection_def Let_def pool_end_def pool_connect_def
        client_release_def new_Pool_def down_driver_def demo_world_def demo_candidate_def
        createConnection_def json_response_def conn_obj_def obj_omit_def nullable_bool_def
        test_options_def)
  with post_ignores_probe [where drv = drv and ce = ce and w = w and parsed = parsed]
  show ?thesis by blast
qed

section \<open>Properties of the database operations\<close>













































section \<open>Properties of the responses\<close>

























end
